theory Spec2Isabelle
  imports Main "HOL-Library.Word"
begin

section \<open>Script values\<close>

text \<open>
  The bootstrap module is untyped JavaScript: every parameter of the console shim and of
  the bridge is an arbitrary script value, and nothing is validated before it is handed
  to the host. The values are modelled as a datatype.

  A string is a sequence of UTF-16 code units, as in the language.

  A number is an IEEE double. It is represented by the decimal data from which the
  language's number-to-string conversion is defined: \<open>Finite neg s n\<close> is zero when
  \<open>s = 0\<close> and otherwise the double whose shortest round-trip digit string is \<open>s\<close>
  (\<open>k\<close> digits, not ending in 0) and whose value is \<open>s * 10 ^ (n - k)\<close>, negated when
  \<open>neg\<close> holds.

  Arrays and objects are plain data: an array is the list of its elements (a hole reads
  as \<open>JUndefined\<close>), an object the list of its own enumerable string-keyed properties in
  enumeration order. Objects here have no \<open>toJSON\<close> method, no accessors and are no
  boxed primitives. The object graph is unfolded into a tree; \<open>JBackRef i\<close> stands for
  a reference to the \<open>i\<close>-th enclosing array or object, which is how a cyclic structure
  appears. A function and a symbol are opaque and carry an identifier only.
\<close>

type_synonym jsstring = "16 word list"

datatype jsnum = NaN | PosInfinity | NegInfinity | Finite bool nat int

datatype jsval =
    JUndefined
  | JNull
  | JBool bool
  | JNum jsnum
  | JBigInt int
  | JStr jsstring
  | JSymbol nat
  | JFun nat
  | JArr "jsval list"
  | JObj "(jsstring \<times> jsval) list"
  | JBackRef nat

text \<open>
  An exception of the script: the \<open>TypeError\<close> the built-in serializer raises, or any
  other thrown value (what a host operation throws is up to the host).
\<close>

datatype js_error = TypeError | Thrown jsval

definition ascii :: "string \<Rightarrow> jsstring" where
  "ascii s = map (\<lambda>c. of_nat (of_char c)) s"

section \<open>Built-ins of the language used by the console shim\<close>

subsection \<open>Number to string\<close>

definition digit_char :: "nat \<Rightarrow> 16 word" where
  "digit_char d = of_nat (48 + d)"

fun digits :: "nat \<Rightarrow> jsstring" where
  "digits n = (if n < 10 then [digit_char n] else digits (n div 10) @ [digit_char (n mod 10)])"

text \<open>
  \<open>Number::toString\<close> in radix 10. For a finite non-zero number with digit string
  \<open>s\<close> of length \<open>k\<close> and decimal exponent \<open>n\<close>: plain digits followed by zeros when
  \<open>k \<le> n \<le> 21\<close>, a decimal point inside the digits when \<open>0 < n \<le> 21\<close>, leading
  \<open>0.\<close> and zeros when \<open>-6 < n \<le> 0\<close>, exponent notation otherwise.
\<close>

definition number_to_string :: "jsnum \<Rightarrow> jsstring" where
  "number_to_string x =
     (case x of
        NaN \<Rightarrow> ascii ''NaN''
      | PosInfinity \<Rightarrow> ascii ''Infinity''
      | NegInfinity \<Rightarrow> ascii ''-Infinity''
      | Finite neg s n \<Rightarrow>
          if s = 0 then ascii ''0''
          else
            (if neg then ascii ''-'' else []) @
            (let ds = digits s; k = int (length ds) in
             if k \<le> n \<and> n \<le> 21 then ds @ replicate (nat (n - k)) (digit_char 0)
             else if 0 < n \<and> n \<le> 21 then take (nat n) ds @ ascii ''.'' @ drop (nat n) ds
             else if -6 < n \<and> n \<le> 0 then
               ascii ''0.'' @ replicate (nat (- n)) (digit_char 0) @ ds
             else
               (let e = n - 1;
                    sign = (if e < 0 then ascii ''-'' else ascii ''+'');
                    ex = ascii ''e'' @ sign @ digits (nat \<bar>e\<bar>)
                in if k = 1 then ds @ ex
                   else take 1 ds @ ascii ''.'' @ drop 1 ds @ ex)))"

definition is_finite :: "jsnum \<Rightarrow> bool" where
  "is_finite x = (case x of Finite _ _ _ \<Rightarrow> True | _ \<Rightarrow> False)"

subsection \<open>Quoting a string for JSON\<close>

definition hex_char :: "nat \<Rightarrow> 16 word" where
  "hex_char d = (if d < 10 then of_nat (48 + d) else of_nat (87 + d))"

text \<open>\<open>UnicodeEscape\<close>: backslash, \<open>u\<close> and four lower-case hexadecimal digits.\<close>

definition unicode_escape :: "16 word \<Rightarrow> jsstring" where
  "unicode_escape c =
     (let n = unat c in
      [0x5C, 0x75, hex_char (n div 4096), hex_char (n div 256 mod 16),
       hex_char (n div 16 mod 16), hex_char (n mod 16)])"

definition is_leading_surrogate :: "16 word \<Rightarrow> bool" where
  "is_leading_surrogate c = (0xD800 \<le> c \<and> c \<le> 0xDBFF)"

definition is_trailing_surrogate :: "16 word \<Rightarrow> bool" where
  "is_trailing_surrogate c = (0xDC00 \<le> c \<and> c \<le> 0xDFFF)"

text \<open>
  The body of \<open>QuoteJSONString\<close>, code point by code point: the seven characters with a
  short escape, then every other control character and every unpaired surrogate as a
  \<open>\u\<close> escape, everything else unchanged (a surrogate pair stays a pair).
\<close>

definition quote_unit :: "16 word \<Rightarrow> jsstring" where
  "quote_unit c =
     (if c = 0x08 then [0x5C, 0x62]
      else if c = 0x09 then [0x5C, 0x74]
      else if c = 0x0A then [0x5C, 0x6E]
      else if c = 0x0C then [0x5C, 0x66]
      else if c = 0x0D then [0x5C, 0x72]
      else if c = 0x22 then [0x5C, 0x22]
      else if c = 0x5C then [0x5C, 0x5C]
      else if c < 0x20 then unicode_escape c
      else [c])"

fun quote_units :: "jsstring \<Rightarrow> jsstring" where
  "quote_units [] = []"
| "quote_units [c] =
     (if is_leading_surrogate c \<or> is_trailing_surrogate c then unicode_escape c
      else quote_unit c)"
| "quote_units (c # d # cs) =
     (if is_leading_surrogate c then
        (if is_trailing_surrogate d then c # d # quote_units cs
         else unicode_escape c @ quote_units (d # cs))
      else if is_trailing_surrogate c then unicode_escape c @ quote_units (d # cs)
      else quote_unit c @ quote_units (d # cs))"

definition QuoteJSONString :: "jsstring \<Rightarrow> jsstring" where
  "QuoteJSONString s = [0x22] @ quote_units s @ [0x22]"

subsection \<open>Array.prototype.map and Array.prototype.join\<close>

text \<open>
  \<open>map\<close> calls the function on the elements from left to right; the first exception
  ends it. \<open>join\<close> puts the separator between the elements; an element that is
  \<open>undefined\<close> (here \<open>None\<close>) contributes the empty string.
\<close>

fun array_map :: "('a \<Rightarrow> js_error + 'b) \<Rightarrow> 'a list \<Rightarrow> js_error + 'b list" where
  "array_map f [] = Inr []"
| "array_map f (x # xs) =
     (case f x of
        Inl e \<Rightarrow> Inl e
      | Inr y \<Rightarrow> (case array_map f xs of Inl e \<Rightarrow> Inl e | Inr ys \<Rightarrow> Inr (y # ys)))"

fun join_strings :: "jsstring \<Rightarrow> jsstring list \<Rightarrow> jsstring" where
  "join_strings sep [] = []"
| "join_strings sep [x] = x"
| "join_strings sep (x # y # ys) = x @ sep @ join_strings sep (y # ys)"

definition array_join :: "jsstring \<Rightarrow> jsstring option list \<Rightarrow> jsstring" where
  "array_join sep xs = join_strings sep (map (\<lambda>x. case x of None \<Rightarrow> [] | Some s \<Rightarrow> s) xs)"

subsection \<open>JSON.stringify with one argument\<close>

text \<open>
  \<open>SerializeJSONProperty\<close> without replacer and without indentation. The result is an
  exception, \<open>undefined\<close> (\<open>None\<close>) or a string. In an array an element without a
  serialization is written \<open>null\<close>; in an object such a property is left out. A BigInt
  and a value that is already being serialized (a cycle) raise \<open>TypeError\<close>.
\<close>

fun JSON_stringify :: "jsval \<Rightarrow> js_error + jsstring option"
  and SerializeJSONArray :: "jsval list \<Rightarrow> js_error + jsstring list"
  and SerializeJSONObject :: "(jsstring \<times> jsval) list \<Rightarrow> js_error + jsstring list"
where
  "JSON_stringify JUndefined = Inr None"
| "JSON_stringify JNull = Inr (Some (ascii ''null''))"
| "JSON_stringify (JBool b) = Inr (Some (if b then ascii ''true'' else ascii ''false''))"
| "JSON_stringify (JNum x) =
     Inr (Some (if is_finite x then number_to_string x else ascii ''null''))"
| "JSON_stringify (JBigInt i) = Inl TypeError"
| "JSON_stringify (JStr s) = Inr (Some (QuoteJSONString s))"
| "JSON_stringify (JSymbol i) = Inr None"
| "JSON_stringify (JFun i) = Inr None"
| "JSON_stringify (JArr xs) =
     (case SerializeJSONArray xs of
        Inl e \<Rightarrow> Inl e
      | Inr ps \<Rightarrow> Inr (Some (ascii ''['' @ join_strings (ascii '','') ps @ ascii '']'')))"
| "JSON_stringify (JObj kvs) =
     (case SerializeJSONObject kvs of
        Inl e \<Rightarrow> Inl e
      | Inr ps \<Rightarrow> Inr (Some (ascii ''{'' @ join_strings (ascii '','') ps @ ascii ''}'')))"
| "JSON_stringify (JBackRef i) = Inl TypeError"
| "SerializeJSONArray [] = Inr []"
| "SerializeJSONArray (x # xs) =
     (case JSON_stringify x of
        Inl e \<Rightarrow> Inl e
      | Inr r \<Rightarrow>
          (case SerializeJSONArray xs of
             Inl e \<Rightarrow> Inl e
           | Inr ps \<Rightarrow> Inr ((case r of None \<Rightarrow> ascii ''null'' | Some s \<Rightarrow> s) # ps)))"
| "SerializeJSONObject [] = Inr []"
| "SerializeJSONObject (kv # kvs) =
     (case JSON_stringify (snd kv) of
        Inl e \<Rightarrow> Inl e
      | Inr r \<Rightarrow>
          (case SerializeJSONObject kvs of
             Inl e \<Rightarrow> Inl e
           | Inr ps \<Rightarrow>
               Inr (case r of
                      None \<Rightarrow> ps
                    | Some s \<Rightarrow> (QuoteJSONString (fst kv) @ ascii '':'' @ s) # ps)))"

section \<open>The host\<close>

text \<open>
  The module reaches the host through \<open>core.print\<close> and the four operations under
  \<open>core.ops\<close>. The host is not part of the module: it is a parameter, a function from
  a call and the host's state to a result (a value or an exception) and the host's next
  state. A host operation does not run script code, so it cannot touch the callback
  slots. \<open>core.print\<close> is called with a string and a boolean; the operations receive
  the script's values as they are.
\<close>

datatype host_call =
    core_print jsstring bool
  | op_gpu_create_window jsval jsval jsval
  | op_gpu_create_shader_module jsval
  | op_gpu_create_render_pipeline jsval jsval jsval
  | op_gpu_draw_frame jsval jsval jsval jsval jsval jsval jsval

type_synonym 'h host_impl = "host_call \<Rightarrow> 'h \<Rightarrow> (js_error + jsval) \<times> 'h"

text \<open>
  The state the module works on: the object \<open>globalThis.__gpuCallbacks\<close> with its three
  properties, the calls made to the host so far (oldest first), and the host's state.
  The property \<open>setup\<close> is the field \<open>setup_slot\<close>, the name being taken in theories.
\<close>

record gpu_callbacks =
  setup_slot :: jsval
  draw :: jsval
  resize :: jsval

record 'h world =
  gpuCallbacks :: gpu_callbacks
  calls :: "host_call list"
  host :: 'h

text \<open>One call across the boundary: it is recorded, and the host answers.\<close>

definition core_call :: "'h host_impl \<Rightarrow> host_call \<Rightarrow> 'h world \<Rightarrow> (js_error + jsval) \<times> 'h world" where
  "core_call H c w =
     (case H c (host w) of
        (r, h') \<Rightarrow> (r, w\<lparr>calls := calls w @ [c], host := h'\<rparr>))"


section \<open>The module\<close>

text \<open>
  Evaluating the module installs \<open>console\<close>, \<open>__gpuCallbacks\<close> and \<open>gpu\<close>; the
  three slots start as \<open>null\<close> and no host call is made.
\<close>

definition bootstrap :: "'h \<Rightarrow> 'h world" where
  "bootstrap h =
     \<lparr>gpuCallbacks = \<lparr>setup_slot = JNull, draw = JNull, resize = JNull\<rparr>, calls = [], host = h\<rparr>"

subsection \<open>Console API\<close>

text \<open>\<^verbatim>\<open>args.map((arg) => JSON.stringify(arg)).join(" ")\<close>\<close>

definition argsToMessage :: "jsval list \<Rightarrow> js_error + jsstring" where
  "argsToMessage args =
     (case array_map JSON_stringify args of
        Inl e \<Rightarrow> Inl e
      | Inr xs \<Rightarrow> Inr (array_join (ascii '' '') xs))"

text \<open>
  \<open>console.log\<close> and \<open>console.error\<close>: the template literal is evaluated first, so an
  exception of \<open>argsToMessage\<close> leaves before \<open>core.print\<close> is reached. Neither
  function has a \<open>return\<close>: the result is \<open>undefined\<close>.
\<close>

definition console_log :: "'h host_impl \<Rightarrow> jsval list \<Rightarrow> 'h world \<Rightarrow> (js_error + jsval) \<times> 'h world" where
  "console_log H args w =
     (case argsToMessage args of
        Inl e \<Rightarrow> (Inl e, w)
      | Inr m \<Rightarrow>
          (case core_call H (core_print (ascii ''[out]: '' @ m @ [0x0A]) False) w of
             (Inl e, w') \<Rightarrow> (Inl e, w')
           | (Inr v, w') \<Rightarrow> (Inr JUndefined, w')))"

definition console_error :: "'h host_impl \<Rightarrow> jsval list \<Rightarrow> 'h world \<Rightarrow> (js_error + jsval) \<times> 'h world" where
  "console_error H args w =
     (case argsToMessage args of
        Inl e \<Rightarrow> (Inl e, w)
      | Inr m \<Rightarrow>
          (case core_call H (core_print (ascii ''[err]: '' @ m @ [0x0A]) True) w of
             (Inl e, w') \<Rightarrow> (Inl e, w')
           | (Inr v, w') \<Rightarrow> (Inr JUndefined, w')))"

subsection \<open>GPU API\<close>

definition createWindow ::
  "'h host_impl \<Rightarrow> jsval \<Rightarrow> jsval \<Rightarrow> jsval \<Rightarrow> 'h world \<Rightarrow> (js_error + jsval) \<times> 'h world" where
  "createWindow H title width height w =
     (case core_call H (op_gpu_create_window title width height) w of
        (Inl e, w') \<Rightarrow> (Inl e, w')
      | (Inr v, w') \<Rightarrow> (Inr JUndefined, w'))"

definition onSetup :: "jsval \<Rightarrow> 'h world \<Rightarrow> (js_error + jsval) \<times> 'h world" where
  "onSetup fn w = (Inr JUndefined, w\<lparr>gpuCallbacks := (gpuCallbacks w)\<lparr>setup_slot := fn\<rparr>\<rparr>)"

definition onDraw :: "jsval \<Rightarrow> 'h world \<Rightarrow> (js_error + jsval) \<times> 'h world" where
  "onDraw fn w = (Inr JUndefined, w\<lparr>gpuCallbacks := (gpuCallbacks w)\<lparr>draw := fn\<rparr>\<rparr>)"

definition onResize :: "jsval \<Rightarrow> 'h world \<Rightarrow> (js_error + jsval) \<times> 'h world" where
  "onResize fn w = (Inr JUndefined, w\<lparr>gpuCallbacks := (gpuCallbacks w)\<lparr>resize := fn\<rparr>\<rparr>)"

definition createShaderModule ::
  "'h host_impl \<Rightarrow> jsval \<Rightarrow> 'h world \<Rightarrow> (js_error + jsval) \<times> 'h world" where
  "createShaderModule H code w = core_call H (op_gpu_create_shader_module code) w"

definition createRenderPipeline ::
  "'h host_impl \<Rightarrow> jsval \<Rightarrow> jsval \<Rightarrow> jsval \<Rightarrow> 'h world \<Rightarrow> (js_error + jsval) \<times> 'h world" where
  "createRenderPipeline H shaderModuleId vertexEntry fragmentEntry w =
     core_call H (op_gpu_create_render_pipeline shaderModuleId vertexEntry fragmentEntry) w"

definition drawFrame ::
  "'h host_impl \<Rightarrow> jsval \<Rightarrow> jsval \<Rightarrow> jsval \<Rightarrow> jsval \<Rightarrow> jsval \<Rightarrow> jsval \<Rightarrow> jsval \<Rightarrow> 'h world
     \<Rightarrow> (js_error + jsval) \<times> 'h world" where
  "drawFrame H pipelineId r g b a vertexCount instanceCount w =
     (case core_call H (op_gpu_draw_frame pipelineId r g b a vertexCount instanceCount) w of
        (Inl e, w') \<Rightarrow> (Inl e, w')
      | (Inr v, w') \<Rightarrow> (Inr JUndefined, w'))"

section \<open>The dispatcher\<close>

text \<open>
  Modelled from the spec: the dispatcher, the part of the host's event loop that calls
  the registered handlers, is native code that is not among the sources. The
  specification says of it: it reads the slot when it is about to call (never earlier);
  when the slot is unset it skips the call silently; an exception raised inside a
  handler is caught at the dispatch boundary and reported, and the loop goes on. A slot
  is unset while it holds the \<open>null\<close> it was created with. How a script value is
  called belongs to the language and is the parameter \<open>call\<close>.
\<close>

datatype slot = Setup | Draw | Resize

definition slot_handler :: "slot \<Rightarrow> gpu_callbacks \<Rightarrow> jsval" where
  "slot_handler s cb = (case s of Setup \<Rightarrow> setup_slot cb | Draw \<Rightarrow> draw cb | Resize \<Rightarrow> resize cb)"

datatype dispatch_result = Skipped | Completed | Reported js_error

definition dispatch ::
  "(jsval \<Rightarrow> jsval list \<Rightarrow> 'h world \<Rightarrow> (js_error + jsval) \<times> 'h world) \<Rightarrow> slot \<Rightarrow> jsval list
     \<Rightarrow> 'h world \<Rightarrow> dispatch_result \<times> 'h world" where
  "dispatch call s args w =
     (let fn = slot_handler s (gpuCallbacks w) in
      if fn = JNull then (Skipped, w)
      else
        (case call fn args w of
           (Inl e, w') \<Rightarrow> (Reported e, w')
         | (Inr v, w') \<Rightarrow> (Completed, w')))"

section \<open>The serialization in the specification's words\<close>

text \<open>
  The specification describes the format of a logged value as: a string quoted, a
  number, a boolean and \<open>null\<close> in their literal representation, a structured value
  serialized recursively. \<open>canonical\<close> is that description, for the values it speaks
  of (\<open>json_data\<close>: strings, finite numbers, booleans, \<open>null\<close>, and arrays and objects
  of such values).
\<close>

fun canonical :: "jsval \<Rightarrow> jsstring" where
  "canonical (JStr s) = QuoteJSONString s"
| "canonical (JNum x) = number_to_string x"
| "canonical (JBool b) = (if b then ascii ''true'' else ascii ''false'')"
| "canonical JNull = ascii ''null''"
| "canonical (JArr xs) = ascii ''['' @ join_strings (ascii '','') (map canonical xs) @ ascii '']''"
| "canonical (JObj kvs) =
     ascii ''{'' @
     join_strings (ascii '','')
       (map (\<lambda>kv. QuoteJSONString (fst kv) @ ascii '':'' @ canonical (snd kv)) kvs) @
     ascii ''}''"
| "canonical v = []"

fun json_data :: "jsval \<Rightarrow> bool" where
  "json_data (JStr s) = True"
| "json_data (JNum x) = is_finite x"
| "json_data (JBool b) = True"
| "json_data JNull = True"
| "json_data (JArr xs) = list_all json_data xs"
| "json_data (JObj kvs) = list_all (\<lambda>kv. json_data (snd kv)) kvs"
| "json_data v = False"

section \<open>A host to run examples on\<close>

text \<open>
  A small host for the concrete runs below. Its state counts the resources it has made.
  It compiles any shader whose source is a non-empty string and hands out the handle 1,
  builds a pipeline for that handle and hands out the handle 2, and throws otherwise.
\<close>

definition demo_host :: "nat host_impl" where
  "demo_host c h =
     (case c of
        core_print m e \<Rightarrow> (Inr JUndefined, h)
      | op_gpu_create_window t wd ht \<Rightarrow> (Inr JUndefined, h)
      | op_gpu_create_shader_module code \<Rightarrow>
          (case code of
             JStr (x # xs) \<Rightarrow> (Inr (JNum (Finite False 1 1)), Suc h)
           | _ \<Rightarrow> (Inl (Thrown (JStr (ascii ''shader compilation failed''))), h))
      | op_gpu_create_render_pipeline sh v f \<Rightarrow>
          (if sh = JNum (Finite False 1 1) then (Inr (JNum (Finite False 2 1)), Suc h)
           else (Inl (Thrown (JStr (ascii ''invalid shader module''))), h))
      | op_gpu_draw_frame p r g b a vc ic \<Rightarrow> (Inr JUndefined, h))"

section \<open>The serializer as the module finds it\<close>







section \<open>Auxiliary facts\<close>

subsection \<open>One call across the boundary\<close>

lemma calls_core_call: "calls (snd (core_call H c w)) = calls w @ [c]"
  by (simp add: core_call_def split: prod.splits)

lemma gpuCallbacks_core_call: "gpuCallbacks (snd (core_call H c w)) = gpuCallbacks w"
  by (simp add: core_call_def split: prod.splits)

lemma fst_core_call: "fst (core_call H c w) = fst (H c (host w))"
  by (simp add: core_call_def split: prod.splits)

text \<open>Dropping the host's value (a function without \<open>return\<close>) keeps state and exception.\<close>

lemma snd_discard:
  "snd (case p of (Inl e, w') \<Rightarrow> (Inl e, w') | (Inr v, w') \<Rightarrow> (Inr d, w')) = snd p"
  by (simp split: prod.splits sum.splits)

lemma fst_discard:
  "fst (case p of (Inl e, w') \<Rightarrow> (Inl e, w') | (Inr v, w') \<Rightarrow> (Inr d, w')) =
     (case fst p of Inl e \<Rightarrow> Inl e | Inr v \<Rightarrow> Inr d)"
  by (simp split: prod.splits sum.splits)

subsection \<open>The serializer on the values the specification speaks of\<close>

lemma JSON_stringify_json_data:
  "json_data v \<Longrightarrow> JSON_stringify v = Inr (Some (canonical v))"
  "list_all json_data xs \<Longrightarrow> SerializeJSONArray xs = Inr (map canonical xs)"
  "list_all (\<lambda>kv. json_data (snd kv)) kvs \<Longrightarrow>
     SerializeJSONObject kvs =
       Inr (map (\<lambda>kv. QuoteJSONString (fst kv) @ ascii '':'' @ canonical (snd kv)) kvs)"
  by (induction v and xs and kvs
        rule: JSON_stringify_SerializeJSONArray_SerializeJSONObject.induct) auto

lemma array_map_json_data:
  "list_all json_data args \<Longrightarrow>
     array_map JSON_stringify args = Inr (map (\<lambda>a. Some (canonical a)) args)"
  by (induction args) (simp_all add: JSON_stringify_json_data(1))

lemma argsToMessage_json_data:
  assumes "list_all json_data args"
  shows "argsToMessage args = Inr (join_strings (ascii '' '') (map canonical args))"
  using assms
  by (simp add: argsToMessage_def array_map_json_data array_join_def comp_def)

subsection \<open>The serializer's exceptions\<close>

lemma JSON_stringify_error:
  "JSON_stringify v = Inl e \<Longrightarrow> e = TypeError"
  "SerializeJSONArray xs = Inl e \<Longrightarrow> e = TypeError"
  "SerializeJSONObject kvs = Inl e \<Longrightarrow> e = TypeError"
  by (induction v and xs and kvs
        rule: JSON_stringify_SerializeJSONArray_SerializeJSONObject.induct)
     (auto split: sum.splits)

lemma array_map_error:
  "a \<in> set args \<Longrightarrow> JSON_stringify a = Inl e \<Longrightarrow>
     array_map JSON_stringify args = Inl TypeError"
proof (induction args)
  case Nil
  then show ?case by simp
next
  case (Cons x xs)
  show ?case
  proof (cases "JSON_stringify x")
    case (Inl e')
    then show ?thesis using JSON_stringify_error(1) [OF Inl] by simp
  next
    case (Inr y)
    with Cons have "a \<in> set xs" by auto
    with Cons Inr show ?thesis by simp
  qed
qed

lemma argsToMessage_error:
  "a \<in> set args \<Longrightarrow> JSON_stringify a = Inl e \<Longrightarrow> argsToMessage args = Inl TypeError"
  by (simp add: argsToMessage_def array_map_error)

subsection \<open>What the console functions add to the record of calls\<close>

lemma gpuCallbacks_console:
  "gpuCallbacks (snd (console_log H args w)) = gpuCallbacks w"
  "gpuCallbacks (snd (console_error H args w)) = gpuCallbacks w"
  by (simp_all add: console_log_def console_error_def snd_discard gpuCallbacks_core_call
        split: sum.splits)



section \<open>The console shim\<close>

text \<open>
  C1, as the specification states it: the message forwarded to the host's print
  primitive equals the space-joined canonical serialization of the arguments. The
  module does not forward that string. \<open>console.log(1)\<close> forwards \<open>[out]: 1\<close> and a
  line feed, where the serialization is \<open>1\<close>; \<open>console.log(NaN)\<close> forwards
  \<open>[out]: null\<close>, where the literal is \<open>NaN\<close>; \<open>console.log(1n)\<close>, a primitive too,
  forwards nothing.
\<close>

theorem console_message_is_not_the_bare_serialization:
  "calls (snd (console_log demo_host [JNum (Finite False 1 1)] (bootstrap 0))) =
     [core_print (ascii ''[out]: 1'' @ [0x0A]) False]
   \<and> join_strings (ascii '' '') (map canonical [JNum (Finite False 1 1)]) = ascii ''1''
   \<and> ascii ''[out]: 1'' @ [0x0A] \<noteq> ascii ''1''
   \<and> calls (snd (console_log demo_host [JNum NaN] (bootstrap 0))) =
     [core_print (ascii ''[out]: null'' @ [0x0A]) False]
   \<and> number_to_string NaN = ascii ''NaN''
   \<and> calls (snd (console_log demo_host [JBigInt 1] (bootstrap 0))) = []"
  by code_simp

text \<open>
  C1, amended: for every \<open>console.log\<close> or \<open>console.error\<close> call whose arguments are
  strings, finite numbers, booleans, \<open>null\<close>, or arrays and objects built from these,
  exactly one message is forwarded to the host's print primitive. It is the channel
  prefix (\<open>[out]: \<close> for \<open>log\<close>, \<open>[err]: \<close> for \<open>error\<close>), then the canonical
  serializations of the arguments joined by single spaces, then a line feed; the error
  flag is false for \<open>log\<close> and true for \<open>error\<close>.
\<close>

theorem console_forwards_prefixed_serialization:
  assumes "list_all json_data args"
  shows "calls (snd (console_log H args w)) =
           calls w @
           [core_print
              (ascii ''[out]: '' @ join_strings (ascii '' '') (map canonical args) @ [0x0A])
              False]
       \<and> calls (snd (console_error H args w)) =
           calls w @
           [core_print
              (ascii ''[err]: '' @ join_strings (ascii '' '') (map canonical args) @ [0x0A])
              True]"
  using assms
  by (simp add: console_log_def console_error_def argsToMessage_json_data snd_discard
        calls_core_call)

theorem console_forwards_prefixed_serialization_witness:
  "list_all json_data [JStr (ascii ''hi''), JNum (Finite False 42 2), JBool True, JNull]
   \<and> calls (snd (console_log demo_host
        [JStr (ascii ''hi''), JNum (Finite False 42 2), JBool True, JNull] (bootstrap 0))) =
       [core_print (ascii ''[out]: \"hi\" 42 true null'' @ [0x0A]) False]
   \<and> calls (snd (console_error demo_host
        [JStr (ascii ''hi''), JNum (Finite False 42 2), JBool True, JNull] (bootstrap 0))) =
       [core_print (ascii ''[err]: \"hi\" 42 true null'' @ [0x0A]) True]"
proof -
  have h: "list_all json_data [JStr (ascii ''hi''), JNum (Finite False 42 2), JBool True, JNull]"
    by (simp add: is_finite_def)
  have out:
    "ascii ''[out]: '' @
       join_strings (ascii '' '')
         (map canonical [JStr (ascii ''hi''), JNum (Finite False 42 2), JBool True, JNull]) @
       [0x0A] =
     ascii ''[out]: \"hi\" 42 true null'' @ [0x0A]"
    by code_simp
  have err:
    "ascii ''[err]: '' @
       join_strings (ascii '' '')
         (map canonical [JStr (ascii ''hi''), JNum (Finite False 42 2), JBool True, JNull]) @
       [0x0A] =
     ascii ''[err]: \"hi\" 42 true null'' @ [0x0A]"
    by code_simp
  have c: "calls (bootstrap (0::nat)) = []"
    by (simp add: bootstrap_def)
  show ?thesis
    using console_forwards_prefixed_serialization [OF h, of demo_host "bootstrap 0"] h
    unfolding out err c by simp
qed

text \<open>
  C2, as the specification states it: an argument that cannot be serialized degrades to
  a placeholder, the call does not raise, and a line is still forwarded. The module has
  no handler around the serializer: logging an array that contains itself raises
  \<open>TypeError\<close> to the caller and leaves the record of host calls empty, and so does
  logging a BigInt.
\<close>

theorem cyclic_argument_raises_and_prints_nothing:
  "console_log demo_host [JArr [JBackRef 0]] (bootstrap 0) = (Inl TypeError, bootstrap 0)
   \<and> calls (bootstrap (0::nat)) = []
   \<and> console_error demo_host [JBigInt 7] (bootstrap 0) = (Inl TypeError, bootstrap 0)"
  by (simp add: console_log_def console_error_def argsToMessage_def bootstrap_def)

text \<open>
  C2, amended: when some argument of \<open>console.log\<close> or \<open>console.error\<close> cannot be
  serialized (it contains a cycle, or is or contains a BigInt), the call raises the
  serializer's \<open>TypeError\<close> to its caller and forwards nothing to the host's print
  primitive: the state, with its record of host calls, is the one before the call.
\<close>

theorem unserializable_argument_propagates:
  assumes "a \<in> set args" and "JSON_stringify a = Inl e"
  shows "console_log H args w = (Inl TypeError, w)
       \<and> console_error H args w = (Inl TypeError, w)"
  using argsToMessage_error [OF assms]
  by (simp add: console_log_def console_error_def)

theorem unserializable_argument_propagates_witness:
  "JArr [JBackRef 0] \<in> set [JStr (ascii ''a''), JArr [JBackRef 0]]
   \<and> JSON_stringify (JArr [JBackRef 0]) = Inl TypeError
   \<and> console_log demo_host [JStr (ascii ''a''), JArr [JBackRef 0]] (bootstrap 0) =
       (Inl TypeError, bootstrap 0)
   \<and> console_error demo_host [JStr (ascii ''a''), JArr [JBackRef 0]] (bootstrap 0) =
       (Inl TypeError, bootstrap 0)"
proof -
  have m: "JArr [JBackRef 0] \<in> set [JStr (ascii ''a''), JArr [JBackRef 0]]"
    by simp
  have s: "JSON_stringify (JArr [JBackRef 0]) = Inl TypeError"
    by simp
  show ?thesis
    using unserializable_argument_propagates [OF m s, of demo_host "bootstrap 0"] m s
    by simp
qed



section \<open>The callback slots\<close>

text \<open>
  C3: last write wins. After registering \<open>f\<close> and then \<open>g\<close> in a slot, the slot holds
  exactly \<open>g\<close>, and the whole state is the one reached by registering \<open>g\<close> alone:
  nothing of \<open>f\<close> is left. This holds for each of the three slots.
\<close>

theorem last_registration_wins:
  "setup_slot (gpuCallbacks (snd (onSetup g (snd (onSetup f w))))) = g
   \<and> snd (onSetup g (snd (onSetup f w))) = snd (onSetup g w)
   \<and> draw (gpuCallbacks (snd (onDraw g (snd (onDraw f w))))) = g
   \<and> snd (onDraw g (snd (onDraw f w))) = snd (onDraw g w)
   \<and> resize (gpuCallbacks (snd (onResize g (snd (onResize f w))))) = g
   \<and> snd (onResize g (snd (onResize f w))) = snd (onResize g w)"
  by (simp add: onSetup_def onDraw_def onResize_def)

text \<open>
  C6: when the module has been evaluated the three slots exist and hold \<open>null\<close>, and
  no operation other than the three registrations writes a slot: \<open>createWindow\<close>,
  \<open>createShaderModule\<close>, \<open>createRenderPipeline\<close>, \<open>drawFrame\<close>, \<open>console.log\<close> and
  \<open>console.error\<close> leave all three as they were.
\<close>

theorem slots_start_empty_and_only_registration_writes:
  "gpuCallbacks (bootstrap h) = \<lparr>setup_slot = JNull, draw = JNull, resize = JNull\<rparr>
   \<and> gpuCallbacks (snd (createWindow H title width height w)) = gpuCallbacks w
   \<and> gpuCallbacks (snd (createShaderModule H code w)) = gpuCallbacks w
   \<and> gpuCallbacks (snd (createRenderPipeline H sh ve fe w)) = gpuCallbacks w
   \<and> gpuCallbacks (snd (drawFrame H p r g b a vc ic w)) = gpuCallbacks w
   \<and> gpuCallbacks (snd (console_log H args w)) = gpuCallbacks w
   \<and> gpuCallbacks (snd (console_error H args w)) = gpuCallbacks w"
  by (simp add: bootstrap_def createWindow_def createShaderModule_def createRenderPipeline_def
        drawFrame_def snd_discard gpuCallbacks_core_call gpuCallbacks_console)

text \<open>
  C9: each registration writes its own slot and only that one. \<open>onSetup(f)\<close> puts
  \<open>f\<close> into the setup slot and leaves the draw and the resize slot unchanged;
  \<open>onDraw(f)\<close> puts \<open>f\<close> into the draw slot and leaves the setup and the resize slot
  unchanged; \<open>onResize(f)\<close> puts \<open>f\<close> into the resize slot and leaves the setup and
  the draw slot unchanged. None of them calls the host or prints.
\<close>

theorem registration_writes_one_slot:
  "setup_slot (gpuCallbacks (snd (onSetup f w))) = f
   \<and> draw (gpuCallbacks (snd (onDraw f w))) = f
   \<and> resize (gpuCallbacks (snd (onResize f w))) = f
   \<and> draw (gpuCallbacks (snd (onSetup f w))) = draw (gpuCallbacks w)
   \<and> resize (gpuCallbacks (snd (onSetup f w))) = resize (gpuCallbacks w)
   \<and> calls (snd (onSetup f w)) = calls w \<and> host (snd (onSetup f w)) = host w
   \<and> setup_slot (gpuCallbacks (snd (onDraw f w))) = setup_slot (gpuCallbacks w)
   \<and> resize (gpuCallbacks (snd (onDraw f w))) = resize (gpuCallbacks w)
   \<and> calls (snd (onDraw f w)) = calls w \<and> host (snd (onDraw f w)) = host w
   \<and> setup_slot (gpuCallbacks (snd (onResize f w))) = setup_slot (gpuCallbacks w)
   \<and> draw (gpuCallbacks (snd (onResize f w))) = draw (gpuCallbacks w)
   \<and> calls (snd (onResize f w)) = calls w \<and> host (snd (onResize f w)) = host w"
  by (simp add: onSetup_def onDraw_def onResize_def)

text \<open>
  C8: when the dispatcher is about to call a slot that is unset, it makes no call and
  produces no error: the dispatch is skipped and the state is untouched, whatever
  calling a script value would have done.
\<close>

theorem dispatch_skips_unset_slot:
  assumes "slot_handler s (gpuCallbacks w) = JNull"
  shows "dispatch call s args w = (Skipped, w)"
  using assms by (simp add: dispatch_def)

theorem dispatch_skips_unset_slot_witness:
  "slot_handler Draw (gpuCallbacks (bootstrap (0::nat))) = JNull
   \<and> dispatch (\<lambda>fn args w. (Inl TypeError, w)) Draw [] (bootstrap (0::nat)) =
       (Skipped, bootstrap 0)"
proof -
  have h: "slot_handler Draw (gpuCallbacks (bootstrap (0::nat))) = JNull"
    by (simp add: slot_handler_def bootstrap_def)
  show ?thesis
    using dispatch_skips_unset_slot [OF h, of "\<lambda>fn args w. (Inl TypeError, w)" "[]"] h
    by simp
qed

section \<open>The forwarding operations\<close>


text \<open>The scenario of the specification: \<open>drawFrame(2, 0, 1, 0, 1, 3, 1)\<close> after start-up.\<close>

lemma drawFrame_scenario:
  "calls (snd (drawFrame demo_host (JNum (Finite False 2 1))
       (JNum (Finite False 0 0)) (JNum (Finite False 1 1))
       (JNum (Finite False 0 0)) (JNum (Finite False 1 1))
       (JNum (Finite False 3 1)) (JNum (Finite False 1 1)) (bootstrap 0))) =
     [op_gpu_draw_frame (JNum (Finite False 2 1))
        (JNum (Finite False 0 0)) (JNum (Finite False 1 1))
        (JNum (Finite False 0 0)) (JNum (Finite False 1 1))
        (JNum (Finite False 3 1)) (JNum (Finite False 1 1))]"
  by (simp add: drawFrame_def snd_discard calls_core_call bootstrap_def)

text \<open>
  C5: \<open>createShaderModule\<close> and \<open>createRenderPipeline\<close> call their host operation
  exactly once with the arguments given, and their outcome is the host's outcome: the
  handle the host produced, unchanged, or the exception the host raised, unchanged.
  Nothing is swallowed and nothing is tried again.
\<close>

theorem creation_returns_host_outcome:
  "calls (snd (createShaderModule H code w)) = calls w @ [op_gpu_create_shader_module code]
   \<and> fst (createShaderModule H code w) = fst (H (op_gpu_create_shader_module code) (host w))
   \<and> calls (snd (createRenderPipeline H sh ve fe w)) =
       calls w @ [op_gpu_create_render_pipeline sh ve fe]
   \<and> fst (createRenderPipeline H sh ve fe w) =
       fst (H (op_gpu_create_render_pipeline sh ve fe) (host w))"
  by (simp add: createShaderModule_def createRenderPipeline_def calls_core_call fst_core_call)

text \<open>
  C7: \<open>createWindow(title, width, height)\<close> forwards exactly these three arguments, in
  order and unchanged, in one call of the host's window operation, and returns no value:
  its result is \<open>undefined\<close> whatever the host returned (an exception of the host
  passes through).
\<close>

theorem createWindow_forwards_and_returns_nothing:
  "calls (snd (createWindow H title width height w)) =
     calls w @ [op_gpu_create_window title width height]
   \<and> fst (createWindow H title width height w) =
       (case fst (H (op_gpu_create_window title width height) (host w)) of
          Inl e \<Rightarrow> Inl e
        | Inr v \<Rightarrow> Inr JUndefined)"
  by (simp add: createWindow_def snd_discard fst_discard calls_core_call fst_core_call)

end
